theory Spec2Isabelle
  imports Complex_Main "HOL-Library.Sublist"
begin

section \<open>Timeline builder: \<open>get_words_with_timestamps\<close> (utils.py)\<close>

text \<open>
  A Python \<open>str\<close> is a sequence of Unicode code points; the verse texts are Arabic, so a
  text is modelled as the list of its code points. Times are JSON numbers; they are
  modelled as exact rationals, so \<open>+\<close> is exact addition (the rounding of Python floats is
  not part of the model).
\<close>

type_synonym pystr = "nat list"

text \<open>The code points for which \<open>str.isspace\<close> holds.\<close>

definition isspace :: "nat \<Rightarrow> bool" where
  "isspace c \<longleftrightarrow>
     (9 \<le> c \<and> c \<le> 13) \<or> (28 \<le> c \<and> c \<le> 32) \<or> c = 133 \<or> c = 160 \<or> c = 5760 \<or>
     (8192 \<le> c \<and> c \<le> 8202) \<or> c = 8232 \<or> c = 8233 \<or> c = 8239 \<or> c = 8287 \<or> c = 12288"

text \<open>
  \<open>aya_text.split()\<close>: the maximal runs of non-whitespace code points, in order. The
  first argument is the run read so far.
\<close>

fun split_run :: "pystr \<Rightarrow> pystr \<Rightarrow> pystr list" where
  "split_run cur [] = (if cur = [] then [] else [cur])"
| "split_run cur (c # cs) =
     (if isspace c then (if cur = [] then split_run [] cs else cur # split_run [] cs)
      else split_run (cur @ [c]) cs)"

definition py_split :: "pystr \<Rightarrow> pystr list" where
  "py_split s = split_run [] s"

datatype error = KeyError | IndexError

text \<open>
  \<open>xs[i]\<close> on a Python list: an index from \<open>-len\<close> up to \<open>-1\<close> counts from the end, and
  any index outside \<open>-len .. len - 1\<close> raises \<open>IndexError\<close>.
\<close>

definition getitem :: "'a list \<Rightarrow> int \<Rightarrow> error + 'a" where
  "getitem xs i =
     (if 0 \<le> i \<and> i < int (length xs) then Inr (xs ! nat i)
      else if - int (length xs) \<le> i \<and> i < 0 then Inr (xs ! nat (int (length xs) + i))
      else Inl IndexError)"

text \<open>
  The dictionary appended to \<open>result\<close> for one word. The key \<open>"end"\<close> is \<open>end_t\<close>, and
  \<open>translation\<close> is the one value of the nested dictionary \<open>{"en": ...}\<close>.
\<close>

record word_info =
  word :: pystr
  surah :: int
  aya :: int
  word_position :: int
  start :: rat
  end_t :: rat
  translation :: pystr

text \<open>
  One entry of the timestamp store: \<open>segments\<close> is a list of
  \<open>[word_position, local_start, local_end]\<close>, \<open>duration\<close> a number or \<open>null\<close>.
\<close>

type_synonym segment = "int \<times> rat \<times> rat"

record timestamp_entry =
  segments :: "segment list"
  audio_url :: pystr
  duration :: "rat option"

type_synonym quran_store = "int \<rightharpoonup> (int \<rightharpoonup> pystr)"
type_synonym timestamp_store = "int \<times> int \<rightharpoonup> timestamp_entry"
type_synonym translation_store = "int \<times> int \<times> int \<rightharpoonup> pystr"

text \<open>The variables the outer loop updates.\<close>

record loop_state =
  result :: "word_info list"
  audio_urls :: "pystr list"
  offset :: rat

text \<open>
  The dictionary built at lines 143-151. Its values are evaluated in the order written:
  \<open>words[word_index]\<close> first (it may raise \<open>IndexError\<close>), the translation lookup last
  (it may raise \<open>KeyError\<close>; no handler encloses it).
\<close>

definition word_record ::
  "translation_store \<Rightarrow> int \<Rightarrow> int \<Rightarrow> pystr list \<Rightarrow> rat \<Rightarrow> segment \<Rightarrow> error + word_info" where
  "word_record translation_data surah_number aya_number ws off seg =
     (case getitem ws (fst seg - 1) of
        Inl e \<Rightarrow> Inl e
      | Inr w \<Rightarrow>
          (case translation_data (surah_number, aya_number, fst seg) of
             None \<Rightarrow> Inl KeyError
           | Some t \<Rightarrow>
               Inr \<lparr>word = w, surah = surah_number, aya = aya_number,
                    word_position = fst seg, start = fst (snd seg) + off,
                    end_t = snd (snd seg) + off, translation = t\<rparr>))"

text \<open>
  The inner loop \<open>for i, segment in enumerate(segments)\<close>, from index \<open>i\<close> on: it stops at
  the first index that is not below \<open>len(words)\<close>.
\<close>

fun match_words ::
  "translation_store \<Rightarrow> int \<Rightarrow> int \<Rightarrow> pystr list \<Rightarrow> rat \<Rightarrow> nat \<Rightarrow> segment list \<Rightarrow>
   word_info list \<Rightarrow> error + word_info list" where
  "match_words translation_data surah_number aya_number ws off i [] res = Inr res"
| "match_words translation_data surah_number aya_number ws off i (seg # rest) res =
     (if i \<ge> length ws then Inr res
      else case word_record translation_data surah_number aya_number ws off seg of
             Inl e \<Rightarrow> Inl e
           | Inr word_info \<Rightarrow>
               match_words translation_data surah_number aya_number ws off (Suc i) rest
                 (res @ [word_info]))"

text \<open>
  \<open>quran_data[surah_str][str(aya_number)]["displayText"]\<close>; a missing key at either level
  is the \<open>KeyError\<close> the first handler catches.
\<close>

definition display_text :: "quran_store \<Rightarrow> int \<Rightarrow> int \<Rightarrow> pystr option" where
  "display_text quran_data surah_number aya_number =
     (case quran_data surah_number of None \<Rightarrow> None | Some ayas \<Rightarrow> ayas aya_number)"

text \<open>
  \<open>duration if duration is not None else result[-1]["end"]\<close>: the fallback reads the last
  record of the whole \<open>result\<close> list and raises \<open>IndexError\<close> when that list is empty.
\<close>

definition advance :: "rat option \<Rightarrow> word_info list \<Rightarrow> error + rat" where
  "advance dur res =
     (case dur of
        Some d \<Rightarrow> Inr d
      | None \<Rightarrow> (if res = [] then Inl IndexError else Inr (end_t (last res))))"

text \<open>
  The body of the outer loop for one \<open>aya_number\<close>. The two \<open>continue\<close> branches leave the
  state as it is.
\<close>

definition process_aya ::
  "quran_store \<Rightarrow> timestamp_store \<Rightarrow> translation_store \<Rightarrow> int \<Rightarrow> int \<Rightarrow> loop_state \<Rightarrow>
   error + loop_state" where
  "process_aya quran_data timestamp_data translation_data surah_number aya_number st =
     (case display_text quran_data surah_number aya_number of
        None \<Rightarrow> Inr st
      | Some aya_text \<Rightarrow>
          (case timestamp_data (surah_number, aya_number) of
             None \<Rightarrow> Inr st
           | Some entry \<Rightarrow>
               (case match_words translation_data surah_number aya_number (py_split aya_text)
                       (offset st) 0 (segments entry) (result st) of
                  Inl e \<Rightarrow> Inl e
                | Inr res \<Rightarrow>
                    (case advance (duration entry) res of
                       Inl e \<Rightarrow> Inl e
                     | Inr d \<Rightarrow>
                         Inr \<lparr>result = res,
                              audio_urls = audio_urls st @ [audio_url entry],
                              offset = offset st + d\<rparr>))))"

fun process_ayas ::
  "quran_store \<Rightarrow> timestamp_store \<Rightarrow> translation_store \<Rightarrow> int \<Rightarrow> int list \<Rightarrow> loop_state \<Rightarrow>
   error + loop_state" where
  "process_ayas quran_data timestamp_data translation_data surah_number [] st = Inr st"
| "process_ayas quran_data timestamp_data translation_data surah_number (a # as) st =
     (case process_aya quran_data timestamp_data translation_data surah_number a st of
        Inl e \<Rightarrow> Inl e
      | Inr st' \<Rightarrow> process_ayas quran_data timestamp_data translation_data surah_number as st')"

text \<open>
  The function up to the point where \<open>result\<close> is complete. Each of the three files is
  \<open>None\<close> when loading it raised (the function then returns the empty list). The download
  and concatenation of the audio files that follows the loop is not part of the model.
\<close>

definition get_words_with_timestamps ::
  "quran_store option \<Rightarrow> timestamp_store option \<Rightarrow> translation_store option \<Rightarrow>
   int \<Rightarrow> int \<Rightarrow> int \<Rightarrow> error + word_info list" where
  "get_words_with_timestamps quran_file timestamp_file translation_file
     surah_number aya_start aya_end =
     (case quran_file of
        None \<Rightarrow> Inr []
      | Some quran_data \<Rightarrow>
          (case timestamp_file of
             None \<Rightarrow> Inr []
           | Some timestamp_data \<Rightarrow>
               (case translation_file of
                  None \<Rightarrow> Inr []
                | Some translation_data \<Rightarrow>
                    (case process_ayas quran_data timestamp_data translation_data surah_number
                            [aya_start..aya_end] \<lparr>result = [], audio_urls = [], offset = 0\<rparr> of
                       Inl e \<Rightarrow> Inl e
                     | Inr st \<Rightarrow> Inr (result st)))))"

subsection \<open>Valid timestamp data\<close>






subsection \<open>The algorithm of absolute times\<close>

text \<open>
  The element \<open>xs[i]\<close> yields when it does not raise: an index below zero counts from the
  end of the list.
\<close>

definition py_nth :: "'a list \<Rightarrow> int \<Rightarrow> 'a" where
  "py_nth xs i = xs ! nat (if i < 0 then int (length xs) + i else i)"

text \<open>
  The record for one segment: \<open>word_position\<close> selects the split word at index
  \<open>position - 1\<close>, and both local times are shifted by the running offset.
\<close>

definition emit_record ::
  "translation_store \<Rightarrow> int \<Rightarrow> int \<Rightarrow> pystr list \<Rightarrow> rat \<Rightarrow> segment \<Rightarrow> word_info" where
  "emit_record translation_data surah_number aya_number ws off seg =
     \<lparr>word = py_nth ws (fst seg - 1), surah = surah_number, aya = aya_number,
      word_position = fst seg, start = fst (snd seg) + off, end_t = snd (snd seg) + off,
      translation = the (translation_data (surah_number, aya_number, fst seg))\<rparr>"

text \<open>
  The algorithm in words, as a function of the verses still to visit, the records emitted
  so far and the running offset. A verse found in both stores emits the records of its
  first word-count segments; the offset then advances by the declared duration when there
  is one, and otherwise by the end time of the last record emitted so far. That record
  belongs to the verse itself when the verse emitted one, and to an earlier verse when it
  did not.
\<close>

fun timeline_spec ::
  "quran_store \<Rightarrow> timestamp_store \<Rightarrow> translation_store \<Rightarrow> int \<Rightarrow> int list \<Rightarrow>
   word_info list \<Rightarrow> rat \<Rightarrow> word_info list" where
  "timeline_spec quran_data timestamp_data translation_data surah_number [] res off = res"
| "timeline_spec quran_data timestamp_data translation_data surah_number (a # as) res off =
     (case display_text quran_data surah_number a of
        None \<Rightarrow>
          timeline_spec quran_data timestamp_data translation_data surah_number as res off
      | Some aya_text \<Rightarrow>
          (case timestamp_data (surah_number, a) of
             None \<Rightarrow>
               timeline_spec quran_data timestamp_data translation_data surah_number as res off
           | Some entry \<Rightarrow>
               (let ws = py_split aya_text;
                    res' = res @ map (emit_record translation_data surah_number a ws off)
                                   (take (length ws) (segments entry));
                    off' = off + (case duration entry of
                                    Some d \<Rightarrow> d
                                  | None \<Rightarrow> end_t (last res'))
                in timeline_spec quran_data timestamp_data translation_data surah_number as
                     res' off')))"

subsection \<open>A small data set\<close>

text \<open>
  Surah 1 with the two verses \<open>"a b"\<close> and \<open>"c"\<close>; the first verse declares a duration of
  3 seconds, the second declares none.
\<close>

definition example_quran :: quran_store where
  "example_quran = [1 \<mapsto> [1 \<mapsto> [97, 32, 98], 2 \<mapsto> [99]]]"

definition example_timestamps :: timestamp_store where
  "example_timestamps =
     [(1, 1) \<mapsto> \<lparr>segments = [(1, 0, 1), (2, 1, 2)], audio_url = [117], duration = Some 3\<rparr>,
      (1, 2) \<mapsto> \<lparr>segments = [(1, 0, 2)], audio_url = [118], duration = None\<rparr>]"

definition example_translations :: translation_store where
  "example_translations = [(1, 1, 1) \<mapsto> [65], (1, 1, 2) \<mapsto> [66], (1, 2, 1) \<mapsto> [67]]"


text \<open>The translation store without the word of verse 2.\<close>

definition translations_without_verse_2 :: translation_store where
  "translations_without_verse_2 = [(1, 1, 1) \<mapsto> [65], (1, 1, 2) \<mapsto> [66]]"

text \<open>
  A verse of one word, \<open>"a"\<close>, with two segments, the first of which carries position 2.
\<close>

definition one_word_quran :: quran_store where
  "one_word_quran = [1 \<mapsto> [1 \<mapsto> [97]]]"

definition two_segment_timestamps :: timestamp_store where
  "two_segment_timestamps =
     [(1, 1) \<mapsto> \<lparr>segments = [(2, 0, 1), (1, 1, 2)], audio_url = [117], duration = Some 2\<rparr>]"

text \<open>The verse \<open>"a b"\<close> with a single segment that carries position 0.\<close>

definition two_word_quran :: quran_store where
  "two_word_quran = [1 \<mapsto> [1 \<mapsto> [97, 32, 98]]]"

definition position_zero_timestamps :: timestamp_store where
  "position_zero_timestamps =
     [(1, 1) \<mapsto> \<lparr>segments = [(0, 0, 1)], audio_url = [117], duration = Some 1\<rparr>]"

definition position_zero_translations :: translation_store where
  "position_zero_translations = [(1, 1, 0) \<mapsto> [65]]"

text \<open>
  Three verses, \<open>"a b"\<close>, \<open>"c"\<close> and \<open>"d"\<close>; the second declares no duration, so the
  offset of the third comes from the fallback.
\<close>

definition fallback_quran :: quran_store where
  "fallback_quran = [1 \<mapsto> [1 \<mapsto> [97, 32, 98], 2 \<mapsto> [99], 3 \<mapsto> [100]]]"

definition fallback_timestamps :: timestamp_store where
  "fallback_timestamps =
     [(1, 1) \<mapsto> \<lparr>segments = [(1, 0, 1), (2, 1, 2)], audio_url = [117], duration = Some 3\<rparr>,
      (1, 2) \<mapsto> \<lparr>segments = [(1, 0, 2)], audio_url = [118], duration = None\<rparr>,
      (1, 3) \<mapsto> \<lparr>segments = [(1, 0, 1)], audio_url = [119], duration = Some 1\<rparr>]"

definition fallback_translations :: translation_store where
  "fallback_translations =
     [(1, 1, 1) \<mapsto> [65], (1, 1, 2) \<mapsto> [66], (1, 2, 1) \<mapsto> [67], (1, 3, 1) \<mapsto> [68]]"

definition fallback_timeline :: "word_info list" where
  "fallback_timeline =
     [\<lparr>word = [97], surah = 1, aya = 1, word_position = 1, start = 0, end_t = 1,
       translation = [65]\<rparr>,
      \<lparr>word = [98], surah = 1, aya = 1, word_position = 2, start = 1, end_t = 2,
       translation = [66]\<rparr>,
      \<lparr>word = [99], surah = 1, aya = 2, word_position = 1, start = 3, end_t = 5,
       translation = [67]\<rparr>,
      \<lparr>word = [100], surah = 1, aya = 3, word_position = 1, start = 8, end_t = 9,
       translation = [68]\<rparr>]"

text \<open>
  Three verses of one word each, \<open>"a"\<close>, \<open>"b"\<close> and \<open>"c"\<close>; the second has no segment and
  declares no duration.
\<close>

definition silent_quran :: quran_store where
  "silent_quran = [1 \<mapsto> [1 \<mapsto> [97], 2 \<mapsto> [98], 3 \<mapsto> [99]]]"

definition silent_timestamps :: timestamp_store where
  "silent_timestamps =
     [(1, 1) \<mapsto> \<lparr>segments = [(1, 0, 1)], audio_url = [117], duration = Some 3\<rparr>,
      (1, 2) \<mapsto> \<lparr>segments = [], audio_url = [118], duration = None\<rparr>,
      (1, 3) \<mapsto> \<lparr>segments = [(1, 0, 1)], audio_url = [119], duration = Some 1\<rparr>]"

definition silent_translations :: translation_store where
  "silent_translations = [(1, 1, 1) \<mapsto> [65], (1, 3, 1) \<mapsto> [67]]"

section \<open>Suggestion parser: \<open>parse_video_suggestions\<close> (LLM_utils.py)\<close>

text \<open>
  An element of \<open>xml.etree.ElementTree\<close>: its tag, the text before its first child
  (\<open>None\<close> when there is none), its children in document order, and the text that follows
  its end tag.
\<close>

datatype element =
  Element (elem_tag: string) (elem_text: "string option") (elem_children: "element list")
    (elem_tail: "string option")

text \<open>
  The dataclass \<open>VideoSuggestion\<close>; its field \<open>keywords\<close> is \<open>video_keywords\<close> here, and
  \<open>'f\<close> is the type of a Python float.
\<close>

record 'f VideoSuggestion =
  video_keywords :: "string option"
  start_time :: 'f
  end_time :: 'f

text \<open>
  \<open>root.findall(".//video")\<close>: the descendants of \<open>root\<close> (not \<open>root\<close> itself) with the tag,
  in document order.
\<close>

fun descendants :: "element \<Rightarrow> element list" where
  "descendants (Element name x cs after) = concat (map (\<lambda>c. c # descendants c) cs)"

definition findall_descendants :: "string \<Rightarrow> element \<Rightarrow> element list" where
  "findall_descendants name root_elem =
     filter (\<lambda>e. elem_tag e = name) (descendants root_elem)"

text \<open>\<open>video_elem.find(name)\<close>: the first child with the tag, or \<open>None\<close>.\<close>

definition find_child :: "string \<Rightarrow> element \<Rightarrow> element option" where
  "find_child name e = List.find (\<lambda>c. elem_tag c = name) (elem_children e)"

text \<open>
  \<open>float(elem.text)\<close>. The conversion of a string is the built-in's and is a parameter
  (\<open>None\<close> when it raises \<open>ValueError\<close>); on the text \<open>None\<close> of an empty element it raises
  \<open>TypeError\<close>.
\<close>

definition float_of_text :: "(string \<Rightarrow> 'f option) \<Rightarrow> string option \<Rightarrow> 'f option" where
  "float_of_text to_float t = (case t of None \<Rightarrow> None | Some s \<Rightarrow> to_float s)"

text \<open>
  The constructor call at lines 55-59, its arguments evaluated in the order written.
  \<open>find\<close> returning \<open>None\<close> makes \<open>.text\<close> raise \<open>AttributeError\<close>; every exception is
  \<open>None\<close> here.
\<close>

definition video_suggestion ::
  "(string \<Rightarrow> 'f option) \<Rightarrow> element \<Rightarrow> 'f VideoSuggestion option" where
  "video_suggestion to_float video_elem =
     (case find_child ''query'' video_elem of
        None \<Rightarrow> None
      | Some q \<Rightarrow>
          (case find_child ''start'' video_elem of
             None \<Rightarrow> None
           | Some s \<Rightarrow>
               (case float_of_text to_float (elem_text s) of
                  None \<Rightarrow> None
                | Some t0 \<Rightarrow>
                    (case find_child ''end'' video_elem of
                       None \<Rightarrow> None
                     | Some e \<Rightarrow>
                         (case float_of_text to_float (elem_text e) of
                            None \<Rightarrow> None
                          | Some t1 \<Rightarrow>
                              Some \<lparr>video_keywords = elem_text q, start_time = t0,
                                    end_time = t1\<rparr>)))))"

text \<open>The loop over the video elements, appending to \<open>suggestions\<close>.\<close>

fun collect_suggestions ::
  "(string \<Rightarrow> 'f option) \<Rightarrow> element list \<Rightarrow> 'f VideoSuggestion list \<Rightarrow>
   'f VideoSuggestion list option" where
  "collect_suggestions to_float [] suggestions = Some suggestions"
| "collect_suggestions to_float (video_elem # rest) suggestions =
     (case video_suggestion to_float video_elem of
        None \<Rightarrow> None
      | Some suggestion \<Rightarrow> collect_suggestions to_float rest (suggestions @ [suggestion]))"

text \<open>
  The only exception that leaves the function: the handler at line 63 catches every
  exception of the body and raises \<open>Exception("Error parsing video suggestions: ...")\<close>.
\<close>

datatype parse_exception = ErrorParsingVideoSuggestions

text \<open>
  \<open>ET.fromstring\<close> is the library's parser and a parameter: \<open>None\<close> when it raises, the root
  element otherwise. The function applies it to the output wrapped in a root element.
\<close>

definition parse_video_suggestions ::
  "(string \<Rightarrow> element option) \<Rightarrow> (string \<Rightarrow> 'f option) \<Rightarrow> string \<Rightarrow>
   parse_exception + 'f VideoSuggestion list" where
  "parse_video_suggestions fromstring to_float llm_output =
     (case fromstring (''<root>'' @ llm_output @ ''</root>'') of
        None \<Rightarrow> Inl ErrorParsingVideoSuggestions
      | Some root_elem \<Rightarrow>
          (case collect_suggestions to_float (findall_descendants ''video'' root_elem) [] of
             None \<Rightarrow> Inl ErrorParsingVideoSuggestions
           | Some suggestions \<Rightarrow> Inr suggestions))"

text \<open>
  A video element from which no suggestion can be built: a required child is missing, or
  the text of \<open>start\<close> or \<open>end\<close> is not a number.
\<close>

definition field_missing :: "element \<Rightarrow> bool" where
  "field_missing video_elem \<longleftrightarrow>
     find_child ''query'' video_elem = None \<or> find_child ''start'' video_elem = None \<or>
     find_child ''end'' video_elem = None"

definition field_non_numeric :: "(string \<Rightarrow> 'f option) \<Rightarrow> element \<Rightarrow> bool" where
  "field_non_numeric to_float video_elem \<longleftrightarrow>
     (\<exists>name \<in> {''start'', ''end''}.
        case find_child name video_elem of
          None \<Rightarrow> False
        | Some field \<Rightarrow> float_of_text to_float (elem_text field) = None)"

subsection \<open>An agent output with trailing prose\<close>

definition desert_video :: string where
  "desert_video = ''<video><query>desert</query><start>0</start><end>3.2</end></video>''"

text \<open>The tree the library builds for \<open>desert_video\<close> followed by text without markup.\<close>

definition desert_tree :: "string \<Rightarrow> element" where
  "desert_tree prose =
     Element ''root'' None
       [Element ''video'' None
          [Element ''query'' (Some ''desert'') [] None,
           Element ''start'' (Some ''0'') [] None,
           Element ''end'' (Some ''3.2'') [] None]
          (Some prose)]
       None"

subsection \<open>What the library returns on three documents\<close>

definition closing_prose :: string where
  "closing_prose = '' Then the dunes give way to the sea.''"

definition missing_end_video :: string where
  "missing_end_video = ''<video><query>desert</query><start>0</start></video>''"

definition missing_end_tree :: element where
  "missing_end_tree =
     Element ''root'' None
       [Element ''video'' None
          [Element ''query'' (Some ''desert'') [] None,
           Element ''start'' (Some ''0'') [] None]
          None]
       None"

definition library_fromstring :: "string \<Rightarrow> element option" where
  "library_fromstring =
     [''<root>'' @ (desert_video @ closing_prose) @ ''</root>'' \<mapsto> desert_tree closing_prose,
      ''<root>'' @ missing_end_video @ ''</root>'' \<mapsto> missing_end_tree,
      ''<root>no footage fits</root>'' \<mapsto> Element ''root'' (Some ''no footage fits'') [] None]"

definition library_float :: "string \<Rightarrow> rat option" where
  "library_float = [''0'' \<mapsto> 0, ''3.2'' \<mapsto> 16 / 5]"

section \<open>Coverage reconciler\<close>

text \<open>
  The repository's source files hold no function for the Coverage Reconciler; the
  definitions of this section follow section 4.4 of the specification, step by step and
  in its order. A suggestion is the parser's \<open>VideoSuggestion\<close> with rational times.
\<close>

text \<open>
  Modelled from the spec: the error of the Coverage Reconciler, which is missing from the
  source (\<open>reject (fail with InvalidSegmentOrderError)\<close>).
\<close>

datatype reconcile_error = InvalidSegmentOrderError

text \<open>
  Modelled from the spec: the second half of the clamping step of the missing Coverage
  Reconciler, \<open>clamp ... the last suggestion's end_time to T_end\<close>.
\<close>

fun set_last_end :: "rat \<Rightarrow> rat VideoSuggestion list \<Rightarrow> rat VideoSuggestion list" where
  "set_last_end T_end [] = []"
| "set_last_end T_end [x] = [x\<lparr>end_time := T_end\<rparr>]"
| "set_last_end T_end (x # y # rest) = x # set_last_end T_end (y # rest)"

text \<open>
  Modelled from the spec: the clamping step of the missing Coverage Reconciler,
  \<open>clamp the first suggestion's start_time to T_start and the last suggestion's end_time to
  T_end\<close>. An empty list has neither and stays empty.
\<close>

definition clamp_ends ::
  "rat \<Rightarrow> rat \<Rightarrow> rat VideoSuggestion list \<Rightarrow> rat VideoSuggestion list" where
  "clamp_ends T_start T_end xs =
     set_last_end T_end (case xs of [] \<Rightarrow> [] | x # rest \<Rightarrow> x\<lparr>start_time := T_start\<rparr> # rest)"

text \<open>
  Modelled from the spec: the pair step of the missing Coverage Reconciler, with the drop
  of a segment that a neighbour absorbs. The adjacent pairs are visited from left to
  right; where the earlier end differs from the later start, a gap is closed by setting
  the earlier end to the later start, and an overlap by pushing the later start forward
  to the earlier end. A later segment whose pushed start reaches its end has been
  absorbed by the earlier one: it is dropped as the pair is settled, and the earlier
  segment is paired with the suggestion that follows.
\<close>

fun resolve_pairs :: "rat VideoSuggestion list \<Rightarrow> rat VideoSuggestion list" where
  "resolve_pairs (a # b # rest) =
     (if end_time a < start_time b then a\<lparr>end_time := start_time b\<rparr> # resolve_pairs (b # rest)
      else if start_time b < end_time a
           then (if end_time b \<le> end_time a then resolve_pairs (a # rest)
                 else a # resolve_pairs (b\<lparr>start_time := end_time a\<rparr> # rest))
           else a # resolve_pairs (b # rest))"
| "resolve_pairs xs = xs"

text \<open>
  Modelled from the spec: the Coverage Reconciler, missing from the source. It sorts the
  suggestions by start time (the sort is stable, so equal starts keep their order) and
  rejects the list when some suggestion does not end after it starts; it then clamps the
  two outer ends, settles the adjacent pairs, and drops every segment that is left with a
  start at or after its end.
\<close>

definition reconcile ::
  "rat VideoSuggestion list \<Rightarrow> rat \<Rightarrow> rat \<Rightarrow> reconcile_error + rat VideoSuggestion list" where
  "reconcile suggestions T_start T_end =
     (let ordered = sort_key start_time suggestions
      in if list_ex (\<lambda>s. end_time s \<le> start_time s) ordered then Inl InvalidSegmentOrderError
         else Inr (filter (\<lambda>s. start_time s < end_time s)
                     (resolve_pairs (clamp_ends T_start T_end ordered))))"



subsection \<open>Suggestion lists of the examples\<close>



text \<open>The second example of the specification, an overlap.\<close>

definition overlapping :: "rat VideoSuggestion list" where
  "overlapping =
     [\<lparr>video_keywords = Some ''a'', start_time = 0, end_time = 5\<rparr>,
      \<lparr>video_keywords = Some ''b'', start_time = 4, end_time = 10\<rparr>]"

text \<open>A suggestion that lies inside an earlier one.\<close>

definition nested :: "rat VideoSuggestion list" where
  "nested =
     [\<lparr>video_keywords = Some ''a'', start_time = 0, end_time = 10\<rparr>,
      \<lparr>video_keywords = Some ''b'', start_time = 2, end_time = 5\<rparr>,
      \<lparr>video_keywords = Some ''c'', start_time = 5, end_time = 12\<rparr>]"



section \<open>Properties of the timeline builder\<close>

subsection \<open>The inner loop\<close>

lemma match_words_take:
  "match_words tr s a ws off i segs res =
   match_words tr s a ws off i (take (length ws - i) segs) res"
proof (induction segs arbitrary: i res)
  case Nil
  show ?case by simp
next
  case (Cons seg rest)
  show ?case
  proof (cases "length ws \<le> i")
    case True
    then show ?thesis by simp
  next
    case False
    then obtain k where k: "length ws - i = Suc k" and k': "length ws - Suc i = k"
      by (cases "length ws - i") auto
    show ?thesis
      using False Cons.IH [of "Suc i"] by (simp add: k k' split: sum.splits)
  qed
qed

lemma match_words_Inr:
  "match_words tr s a ws off i segs res = Inr res' \<Longrightarrow>
   \<exists>recs. res' = res @ recs \<and>
     list_all2 (\<lambda>seg r. word_record tr s a ws off seg = Inr r) (take (length ws - i) segs) recs"
proof (induction segs arbitrary: i res)
  case Nil
  then show ?case by simp
next
  case (Cons seg rest)
  show ?case
  proof (cases "length ws \<le> i")
    case True
    with Cons.prems show ?thesis by simp
  next
    case False
    then obtain k where k: "length ws - i = Suc k" and k': "length ws - Suc i = k"
      by (cases "length ws - i") auto
    from Cons.prems False obtain r where r: "word_record tr s a ws off seg = Inr r"
      and rec: "match_words tr s a ws off (Suc i) rest (res @ [r]) = Inr res'"
      by (auto split: sum.splits)
    from Cons.IH [OF rec] obtain recs where
      ih1: "res' = (res @ [r]) @ recs"
      and ih2: "list_all2 (\<lambda>seg r. word_record tr s a ws off seg = Inr r) (take k rest) recs"
      by (auto simp: k')
    have "res' = res @ (r # recs)" using ih1 by simp
    moreover have "list_all2 (\<lambda>seg r. word_record tr s a ws off seg = Inr r)
        (take (length ws - i) (seg # rest)) (r # recs)"
      using r ih2 by (simp add: k)
    ultimately show ?thesis by blast
  qed
qed

lemma match_words_Inl:
  "match_words tr s a ws off i segs res = Inl e \<Longrightarrow>
   \<exists>seg \<in> set (take (length ws - i) segs). word_record tr s a ws off seg = Inl e"
proof (induction segs arbitrary: i res)
  case Nil
  then show ?case by simp
next
  case (Cons seg rest)
  show ?case
  proof (cases "length ws \<le> i")
    case True
    with Cons.prems show ?thesis by simp
  next
    case False
    then obtain k where k: "length ws - i = Suc k" and k': "length ws - Suc i = k"
      by (cases "length ws - i") auto
    show ?thesis
    proof (cases "word_record tr s a ws off seg")
      case (Inl e')
      with Cons.prems False show ?thesis by (simp add: k)
    next
      case (Inr r)
      with Cons.prems False
      have "match_words tr s a ws off (Suc i) rest (res @ [r]) = Inl e" by simp
      from Cons.IH [OF this] show ?thesis by (auto simp: k k')
    qed
  qed
qed

lemma match_words_success:
  "\<forall>seg \<in> set (take (length ws - i) segs). \<exists>r. word_record tr s a ws off seg = Inr r \<Longrightarrow>
   \<exists>res'. match_words tr s a ws off i segs res = Inr res'"
proof (cases "match_words tr s a ws off i segs res")
  case (Inl e)
  assume h: "\<forall>seg \<in> set (take (length ws - i) segs). \<exists>r. word_record tr s a ws off seg = Inr r"
  from match_words_Inl [OF Inl] h show ?thesis by auto
next
  case (Inr res')
  then show ?thesis by blast
qed

subsection \<open>Time order of the records\<close>











subsection \<open>The running offset\<close>

lemma split_ab: "py_split [97, 32, 98] = [[97], [98]]"
  by (simp add: py_split_def isspace_def)

lemma split_c: "py_split [99] = [[99]]"
  by (simp add: py_split_def isspace_def)

lemma upto_1_2: "[1..2] = [1, 2::int]"
  by code_simp


lemma getitem_py_nth: "getitem ws i = Inr w \<Longrightarrow> w = py_nth ws i"
  by (auto simp: getitem_def py_nth_def split: if_splits)

lemma word_record_emit:
  "word_record tr s a ws off seg = Inr r \<Longrightarrow> r = emit_record tr s a ws off seg"
  by (auto simp: word_record_def emit_record_def split: sum.splits option.splits
      dest: getitem_py_nth)

lemma list_all2_emit:
  "list_all2 (\<lambda>seg r. word_record tr s a ws off seg = Inr r) segs recs \<Longrightarrow>
   recs = map (emit_record tr s a ws off) segs"
  by (induction segs recs rule: list_all2_induct) (auto dest: word_record_emit)

lemma match_words_emit:
  assumes "match_words tr s a ws off 0 segs res = Inr res'"
  shows "res' = res @ map (emit_record tr s a ws off) (take (length ws) segs)"
proof -
  from match_words_Inr [OF assms] obtain recs where
    r: "res' = res @ recs"
    and l: "list_all2 (\<lambda>seg r. word_record tr s a ws off seg = Inr r) (take (length ws) segs) recs"
    by auto
  from list_all2_emit [OF l] r show ?thesis by simp
qed

lemma advance_Inr:
  "advance dur res = Inr d \<Longrightarrow> d = (case dur of Some d \<Rightarrow> d | None \<Rightarrow> end_t (last res))"
  by (auto simp: advance_def split: option.splits if_splits)

lemma process_ayas_spec:
  "process_ayas qd td tr s as st = Inr st' \<Longrightarrow>
   result st' = timeline_spec qd td tr s as (result st) (offset st)"
proof (induction as arbitrary: st)
  case Nil
  then show ?case by simp
next
  case (Cons a as)
  from Cons.prems obtain st1 where s1: "process_aya qd td tr s a st = Inr st1"
    and s2: "process_ayas qd td tr s as st1 = Inr st'"
    by (auto split: sum.splits)
  note ih = Cons.IH [OF s2]
  show ?case
  proof (cases "display_text qd s a")
    case None
    with s1 have "st1 = st" by (simp add: process_aya_def)
    with ih None show ?thesis by simp
  next
    case (Some aya_text)
    show ?thesis
    proof (cases "td (s, a)")
      case None
      with s1 Some have "st1 = st" by (simp add: process_aya_def)
      with ih None Some show ?thesis by simp
    next
      case e: (Some entry)
      define ws where "ws = py_split aya_text"
      define res' where
        "res' = result st @
           map (emit_record tr s a ws (offset st)) (take (length ws) (segments entry))"
      from s1 Some e obtain res d where
        mw: "match_words tr s a ws (offset st) 0 (segments entry) (result st) = Inr res"
        and adv: "advance (duration entry) res = Inr d"
        and st1: "st1 = \<lparr>result = res, audio_urls = audio_urls st @ [audio_url entry],
                         offset = offset st + d\<rparr>"
        by (auto simp: process_aya_def ws_def split: sum.splits)
      from match_words_emit [OF mw] have res: "res = res'" by (simp add: res'_def)
      have d: "d = (case duration entry of Some d \<Rightarrow> d | None \<Rightarrow> end_t (last res'))"
        using advance_Inr [OF adv] unfolding res .
      have "timeline_spec qd td tr s (a # as) (result st) (offset st) =
            timeline_spec qd td tr s as res' (offset st + d)"
        unfolding d res'_def ws_def using Some e by (simp add: Let_def)
      with ih res st1 show ?thesis by simp
    qed
  qed
qed

lemma upto_1_3: "[1..3] = [1, 2, 3::int]"
  by code_simp

lemma split_one: "py_split [c] = (if isspace c then [] else [[c]])"
  by (simp add: py_split_def)

text \<open>
  In the data with the silent verse 2, the offset is 3 after verse 1. Verse 2 emits no
  record and declares no duration, and the offset still advances, by the end time 1 of
  the record of verse 1: the word of verse 3 starts at 4.
\<close>

theorem fallback_reads_earlier_verse_counterexample:
  "silent_timestamps (1, 2) = Some \<lparr>segments = [], audio_url = [118], duration = None\<rparr> \<and>
   get_words_with_timestamps (Some silent_quran) (Some silent_timestamps)
     (Some silent_translations) 1 1 3 =
   Inr [\<lparr>word = [97], surah = 1, aya = 1, word_position = 1, start = 0, end_t = 1,
         translation = [65]\<rparr>,
        \<lparr>word = [99], surah = 1, aya = 3, word_position = 1, start = 4, end_t = 5,
         translation = [67]\<rparr>]"
  by (simp add: get_words_with_timestamps_def upto_1_3 process_aya_def display_text_def
      silent_quran_def silent_timestamps_def silent_translations_def
      split_one isspace_def word_record_def getitem_def advance_def)

text \<open>
  Claim C4. Whenever \<open>get_words_with_timestamps\<close> returns, its result is the list that the
  algorithm in words computes: the running offset starts at zero, the verses are visited
  in increasing order, each processed segment's position selects the word at index
  \<open>position - 1\<close> and its local times are shifted by the offset, and after each verse the
  offset advances by the declared duration, or without one by the end time of the last
  record emitted so far, which is the verse's own last record when it emitted one.
\<close>

theorem absolute_times_follow_running_offset:
  assumes "get_words_with_timestamps (Some quran_data) (Some timestamp_data)
             (Some translation_data) surah_number aya_start aya_end = Inr res"
  shows "res = timeline_spec quran_data timestamp_data translation_data surah_number
                 [aya_start..aya_end] [] 0"
proof -
  from assms obtain st where
    run: "process_ayas quran_data timestamp_data translation_data surah_number
            [aya_start..aya_end] \<lparr>result = [], audio_urls = [], offset = 0\<rparr> = Inr st"
    and res: "res = result st"
    by (auto simp: get_words_with_timestamps_def split: sum.splits)
  from process_ayas_spec [OF run] res show ?thesis by simp
qed

lemma fallback_run:
  "get_words_with_timestamps (Some fallback_quran) (Some fallback_timestamps)
     (Some fallback_translations) 1 1 3 = Inr fallback_timeline"
  by (simp add: get_words_with_timestamps_def upto_1_3 process_aya_def display_text_def
      fallback_quran_def fallback_timestamps_def fallback_translations_def fallback_timeline_def
      split_ab split_one isspace_def word_record_def getitem_def advance_def)

theorem absolute_times_follow_running_offset_witness:
  "timeline_spec fallback_quran fallback_timestamps fallback_translations 1 [1..3] [] 0 =
     fallback_timeline \<and>
   start (fallback_timeline ! 3) = 3 + end_t (fallback_timeline ! 2)"
proof -
  from absolute_times_follow_running_offset [OF fallback_run]
  have "timeline_spec fallback_quran fallback_timestamps fallback_translations 1 [1..3] [] 0 =
      fallback_timeline" by (rule sym)
  moreover have "start (fallback_timeline ! 3) = 3 + end_t (fallback_timeline ! 2)"
    by (simp add: fallback_timeline_def numeral_3_eq_3 numeral_2_eq_2)
  ultimately show ?thesis by (rule conjI)
qed


subsection \<open>Missing data, surplus segments and the word lookup\<close>

lemma upto_1_1: "[1..1] = [1::int]"
  by code_simp

lemma split_a: "py_split [97] = [[97]]"
  by (simp add: py_split_def isspace_def)

text \<open>
  Claim C3. A verse absent from the per-word translation store is not skipped: with verse 2
  of the small data set missing there, the translation lookup raises \<open>KeyError\<close>, which no
  handler catches, and the function returns no records at all.
\<close>

theorem missing_translation_raises_KeyError:
  "get_words_with_timestamps (Some example_quran) (Some example_timestamps)
     (Some translations_without_verse_2) 1 1 2 = Inl KeyError"
  by (simp add: get_words_with_timestamps_def upto_1_2 process_aya_def display_text_def
      example_quran_def example_timestamps_def translations_without_verse_2_def
      split_ab split_c word_record_def getitem_def advance_def)

text \<open>The two lookups that do have a handler skip the verse and leave the state as it is.\<close>

lemma absent_text_is_skipped:
  "display_text quran_data surah_number a = None \<Longrightarrow>
   process_aya quran_data timestamp_data translation_data surah_number a st = Inr st"
  by (simp add: process_aya_def)

lemma absent_timestamps_are_skipped:
  "timestamp_data (surah_number, a) = None \<Longrightarrow>
   process_aya quran_data timestamp_data translation_data surah_number a st = Inr st"
  by (simp add: process_aya_def split: option.splits)

text \<open>
  A verse of one word with two segments, the first of them carrying position 2: the
  segment count exceeds the word count, and the function raises \<open>IndexError\<close>.
\<close>

theorem surplus_segments_counterexample:
  "length (py_split [97]) < length [(2, 0, 1), (1, 1, 2) :: segment] \<and>
   get_words_with_timestamps (Some one_word_quran) (Some two_segment_timestamps)
     (Some example_translations) 1 1 1 = Inl IndexError"
  by (simp add: get_words_with_timestamps_def upto_1_1 process_aya_def display_text_def
      one_word_quran_def two_segment_timestamps_def example_translations_def
      split_a word_record_def getitem_def advance_def)

text \<open>
  Claim C5. For a verse whose segment count exceeds its word count, the inner loop reads
  the first word-count segments only: its outcome is that of the loop on those segments
  alone, so the remaining segments add no record and raise nothing. When the word and
  translation lookups of those first segments succeed, the loop returns, having emitted
  exactly one record for each of them.
\<close>

theorem surplus_segments_are_dropped:
  assumes "length ws < length segs"
  shows "match_words tr s a ws off 0 segs res =
           match_words tr s a ws off 0 (take (length ws) segs) res \<and>
         ((\<forall>seg \<in> set (take (length ws) segs). \<exists>r. word_record tr s a ws off seg = Inr r) \<longrightarrow>
          (\<exists>recs. match_words tr s a ws off 0 segs res = Inr (res @ recs) \<and>
                  length recs = length ws \<and>
                  list_all2 (\<lambda>seg r. word_record tr s a ws off seg = Inr r)
                    (take (length ws) segs) recs))"
proof (intro conjI impI)
  show "match_words tr s a ws off 0 segs res =
        match_words tr s a ws off 0 (take (length ws) segs) res"
    using match_words_take [of tr s a ws off 0 segs res] by simp
next
  assume ok: "\<forall>seg \<in> set (take (length ws) segs). \<exists>r. word_record tr s a ws off seg = Inr r"
  then have "\<forall>seg \<in> set (take (length ws - 0) segs). \<exists>r. word_record tr s a ws off seg = Inr r"
    by simp
  from match_words_success [OF this] obtain res' where
    run: "match_words tr s a ws off 0 segs res = Inr res'" by blast
  from match_words_Inr [OF run] obtain recs where
    r: "res' = res @ recs"
    and l: "list_all2 (\<lambda>seg r. word_record tr s a ws off seg = Inr r) (take (length ws) segs) recs"
    by auto
  from list_all2_lengthD [OF l] have "length recs = length (take (length ws) segs)"
    by (rule sym)
  with assms have "length recs = length ws" by simp
  with run r l show "\<exists>recs. match_words tr s a ws off 0 segs res = Inr (res @ recs) \<and>
      length recs = length ws \<and>
      list_all2 (\<lambda>seg r. word_record tr s a ws off seg = Inr r) (take (length ws) segs) recs"
    by blast
qed

theorem surplus_segments_are_dropped_witness:
  "match_words example_translations 1 1 [[97]] 0 0 [(1, 0, 1), (2, 1, 2)] [] =
     Inr [\<lparr>word = [97], surah = 1, aya = 1, word_position = 1, start = 0, end_t = 1,
           translation = [65]\<rparr>]"
proof -
  have len: "length [[97::nat]] < length [(1, 0, 1), (2, 1, 2) :: segment]" by simp
  have rec: "word_record example_translations 1 1 [[97]] 0 (1, 0, 1) =
      Inr \<lparr>word = [97], surah = 1, aya = 1, word_position = 1, start = 0, end_t = 1,
           translation = [65]\<rparr>"
    by (simp add: word_record_def getitem_def example_translations_def)
  have ok: "\<forall>seg \<in> set (take (length [[97::nat]]) [(1, 0, 1), (2, 1, 2) :: segment]).
      \<exists>r. word_record example_translations 1 1 [[97]] 0 seg = Inr r"
    using rec by simp
  from surplus_segments_are_dropped [OF len, of example_translations 1 1 0 "[]"] ok
  obtain recs where
    run: "match_words example_translations 1 1 [[97]] 0 0 [(1, 0, 1), (2, 1, 2)] [] = Inr recs"
    and l: "list_all2 (\<lambda>seg r. word_record example_translations 1 1 [[97]] 0 seg = Inr r)
              (take (length [[97::nat]]) [(1, 0, 1), (2, 1, 2)]) recs"
    by auto
  from l rec have "recs = [\<lparr>word = [97], surah = 1, aya = 1, word_position = 1, start = 0,
      end_t = 1, translation = [65]\<rparr>]"
    by (auto simp: list_all2_Cons1)
  with run show ?thesis by simp
qed

text \<open>
  A segment with position 0 in a verse of two words: the index is \<open>-1\<close>, which Python
  reads from the end, so the lookup succeeds and yields the last word.
\<close>

theorem position_zero_counterexample:
  "getitem (py_split [97, 32, 98]) (0 - 1) = Inr [98] \<and>
   get_words_with_timestamps (Some two_word_quran) (Some position_zero_timestamps)
     (Some position_zero_translations) 1 1 1 =
   Inr [\<lparr>word = [98], surah = 1, aya = 1, word_position = 0, start = 0, end_t = 1,
         translation = [65]\<rparr>]"
  by (simp add: get_words_with_timestamps_def upto_1_1 process_aya_def display_text_def
      two_word_quran_def position_zero_timestamps_def position_zero_translations_def
      split_ab word_record_def getitem_def advance_def)

lemma getitem_in_bounds:
  "(\<exists>w. getitem ws i = Inr w) \<longleftrightarrow> - int (length ws) \<le> i \<and> i < int (length ws)"
  by (auto simp: getitem_def)

text \<open>
  Claim C10. The lookup \<open>words[segment[0] - 1]\<close> succeeds exactly when the position lies
  between \<open>1 - len(words)\<close> and \<open>len(words)\<close>. The guard of the loop compares the
  enumeration index only: a segment at an index below the word count whose position
  exceeds the word count makes the loop raise \<open>IndexError\<close>.
\<close>

theorem word_lookup_bounds:
  "((\<exists>w. getitem ws (fst seg - 1) = Inr w) \<longleftrightarrow>
      1 - int (length ws) \<le> fst seg \<and> fst seg \<le> int (length ws)) \<and>
   (i < length ws \<and> int (length ws) < fst seg \<longrightarrow>
      match_words tr s a ws off i (seg # rest) res = Inl IndexError)"
proof (intro conjI impI)
  show "(\<exists>w. getitem ws (fst seg - 1) = Inr w) \<longleftrightarrow>
      1 - int (length ws) \<le> fst seg \<and> fst seg \<le> int (length ws)"
    unfolding getitem_in_bounds by auto
next
  assume h: "i < length ws \<and> int (length ws) < fst seg"
  then have "getitem ws (fst seg - 1) = Inl IndexError" by (simp add: getitem_def)
  with h show "match_words tr s a ws off i (seg # rest) res = Inl IndexError"
    by (simp add: word_record_def)
qed

theorem word_lookup_bounds_witness:
  "match_words example_translations 1 1 [[97]] 0 0 [(2, 0, 1), (1, 1, 2)] [] = Inl IndexError"
  using word_lookup_bounds [of "[[97]]" "(2, 0, 1)" 0 example_translations 1 1 0 "[(1, 1, 2)]" "[]"]
  by simp

section \<open>Properties of the suggestion parser\<close>

lemma video_suggestion_None:
  "video_suggestion to_float v = None \<longleftrightarrow> field_missing v \<or> field_non_numeric to_float v"
  by (auto simp: video_suggestion_def field_missing_def field_non_numeric_def
      split: option.splits)

lemma collect_suggestions_None:
  "collect_suggestions to_float vs acc = None \<longleftrightarrow>
   (\<exists>v \<in> set vs. video_suggestion to_float v = None)"
  by (induction vs arbitrary: acc) (auto split: option.splits)

lemma collect_suggestions_Some:
  "\<forall>v \<in> set vs. video_suggestion to_float v \<noteq> None \<Longrightarrow>
   collect_suggestions to_float vs acc = Some (acc @ map (\<lambda>v. the (video_suggestion to_float v)) vs)"
  by (induction vs arbitrary: acc) (auto split: option.splits)

text \<open>
  Claim C6. \<open>parse_video_suggestions\<close> raises its error exactly when the wrapped output
  cannot be parsed, or some video element lacks one of \<open>query\<close>, \<open>start\<close>, \<open>end\<close>, or has a
  \<open>start\<close> or \<open>end\<close> whose text is not a number; in particular a video element without an
  \<open>end\<close> child raises it.
\<close>

theorem parse_error_exactly_when_malformed:
  "((\<exists>e. parse_video_suggestions fromstring to_float llm_output = Inl e) \<longleftrightarrow>
      (case fromstring (''<root>'' @ llm_output @ ''</root>'') of
         None \<Rightarrow> True
       | Some root_elem \<Rightarrow>
           (\<exists>v \<in> set (findall_descendants ''video'' root_elem).
              field_missing v \<or> field_non_numeric to_float v))) \<and>
   (\<forall>root_elem v.
      fromstring (''<root>'' @ llm_output @ ''</root>'') = Some root_elem \<and>
      v \<in> set (findall_descendants ''video'' root_elem) \<and> find_child ''end'' v = None \<longrightarrow>
      parse_video_suggestions fromstring to_float llm_output = Inl ErrorParsingVideoSuggestions)"
proof (intro conjI allI impI)
  show "(\<exists>e. parse_video_suggestions fromstring to_float llm_output = Inl e) \<longleftrightarrow>
      (case fromstring (''<root>'' @ llm_output @ ''</root>'') of
         None \<Rightarrow> True
       | Some root_elem \<Rightarrow>
           (\<exists>v \<in> set (findall_descendants ''video'' root_elem).
              field_missing v \<or> field_non_numeric to_float v))"
  proof (cases "fromstring (''<root>'' @ llm_output @ ''</root>'')")
    case None
    then show ?thesis by (simp add: parse_video_suggestions_def)
  next
    case (Some root_elem)
    show ?thesis
    proof (cases "collect_suggestions to_float (findall_descendants ''video'' root_elem) []")
      case None
      with Some show ?thesis
        using collect_suggestions_None [of to_float "findall_descendants ''video'' root_elem" "[]"]
        by (simp add: parse_video_suggestions_def video_suggestion_None)
    next
      case (Some suggestions)
      with \<open>fromstring (''<root>'' @ llm_output @ ''</root>'') = Some root_elem\<close> show ?thesis
        using collect_suggestions_None [of to_float "findall_descendants ''video'' root_elem" "[]"]
        by (simp add: parse_video_suggestions_def video_suggestion_None)
    qed
  qed
next
  fix root_elem v
  assume h: "fromstring (''<root>'' @ llm_output @ ''</root>'') = Some root_elem \<and>
      v \<in> set (findall_descendants ''video'' root_elem) \<and> find_child ''end'' v = None"
  then have "video_suggestion to_float v = None"
    by (simp add: video_suggestion_None field_missing_def)
  with h have "collect_suggestions to_float (findall_descendants ''video'' root_elem) [] = None"
    unfolding collect_suggestions_None by blast
  with h show "parse_video_suggestions fromstring to_float llm_output =
      Inl ErrorParsingVideoSuggestions"
    by (simp add: parse_video_suggestions_def)
qed

lemma desert_tree_videos:
  "findall_descendants ''video'' (desert_tree prose) =
     [Element ''video'' None
        [Element ''query'' (Some ''desert'') [] None,
         Element ''start'' (Some ''0'') [] None,
         Element ''end'' (Some ''3.2'') [] None]
        (Some prose)]"
  by (simp add: findall_descendants_def desert_tree_def)

text \<open>
  Claim C7. The function parses the output wrapped in a root element, so text around
  the video elements is tolerated: for the video element with query \<open>desert\<close>, start \<open>0\<close> and
  end \<open>3.2\<close> followed by prose, for which the library returns the tree with that prose as
  the tail of the video element, the result is exactly one suggestion with keywords
  \<open>desert\<close> and the two numbers \<open>float\<close> gives for \<open>0\<close> and \<open>3.2\<close>.
\<close>

theorem trailing_prose_is_tolerated:
  assumes "fromstring (''<root>'' @ (desert_video @ prose) @ ''</root>'') = Some (desert_tree prose)"
    and "to_float ''0'' = Some t0" and "to_float ''3.2'' = Some t1"
  shows "parse_video_suggestions fromstring to_float (desert_video @ prose) =
           Inr [\<lparr>video_keywords = Some ''desert'', start_time = t0, end_time = t1\<rparr>]"
  using assms
  by (simp add: parse_video_suggestions_def desert_tree_videos video_suggestion_def
      find_child_def float_of_text_def)

text \<open>
  Claim C9. When the wrapped output is well-formed and holds no video element, the
  function returns the empty list and raises nothing.
\<close>

theorem no_video_elements_is_empty_list:
  assumes "fromstring (''<root>'' @ llm_output @ ''</root>'') = Some root_elem"
    and "findall_descendants ''video'' root_elem = []"
  shows "parse_video_suggestions fromstring to_float llm_output = Inr []"
  using assms by (simp add: parse_video_suggestions_def)

theorem parse_error_exactly_when_malformed_witness:
  "parse_video_suggestions library_fromstring library_float missing_end_video =
     Inl ErrorParsingVideoSuggestions"
proof -
  have f: "library_fromstring (''<root>'' @ missing_end_video @ ''</root>'') = Some missing_end_tree"
    by (simp add: library_fromstring_def missing_end_video_def desert_video_def closing_prose_def)
  define v where "v = Element ''video'' None
          [Element ''query'' (Some ''desert'') [] None,
           Element ''start'' (Some ''0'') [] None] None"
  have m: "v \<in> set (findall_descendants ''video'' missing_end_tree)"
    by (simp add: findall_descendants_def missing_end_tree_def v_def)
  have e: "find_child ''end'' v = None" by (simp add: find_child_def v_def)
  from parse_error_exactly_when_malformed [of library_fromstring library_float missing_end_video]
    f m e show ?thesis by blast
qed

theorem trailing_prose_is_tolerated_witness:
  "parse_video_suggestions library_fromstring library_float (desert_video @ closing_prose) =
     Inr [\<lparr>video_keywords = Some ''desert'', start_time = 0, end_time = 16 / 5\<rparr>]"
proof -
  have f: "library_fromstring (''<root>'' @ (desert_video @ closing_prose) @ ''</root>'') =
      Some (desert_tree closing_prose)"
    by (simp add: library_fromstring_def desert_video_def closing_prose_def
        missing_end_video_def)
  have z: "library_float ''0'' = Some 0" and t: "library_float ''3.2'' = Some (16 / 5)"
    by (simp_all add: library_float_def)
  from trailing_prose_is_tolerated
    [where fromstring = library_fromstring and to_float = library_float
       and prose = closing_prose, OF f z t]
  show ?thesis .
qed

theorem no_video_elements_is_empty_list_witness:
  "parse_video_suggestions library_fromstring library_float ''no footage fits'' = Inr []"
proof -
  have f: "library_fromstring (''<root>'' @ ''no footage fits'' @ ''</root>'') =
      Some (Element ''root'' (Some ''no footage fits'') [] None)"
    by (simp add: library_fromstring_def)
  have n: "findall_descendants ''video'' (Element ''root'' (Some ''no footage fits'') [] None) = []"
    by (simp add: findall_descendants_def)
  from no_video_elements_is_empty_list
    [where fromstring = library_fromstring and llm_output = "''no footage fits''", OF f n]
  show ?thesis .
qed

section \<open>Properties of the coverage reconciler\<close>

subsection \<open>The clamped list\<close>








subsection \<open>The pair step tiles the span\<close>




subsection \<open>Tilings\<close>










subsection \<open>Lists without overlaps\<close>





subsection \<open>The examples of the specification\<close>



lemma overlapping_run:
  "reconcile overlapping 0 10 =
     Inr [\<lparr>video_keywords = Some ''a'', start_time = 0, end_time = 5\<rparr>,
          \<lparr>video_keywords = Some ''b'', start_time = 5, end_time = 10\<rparr>]"
  by (simp add: reconcile_def overlapping_def clamp_ends_def)

text \<open>The nested suggestion is absorbed, and the one after it starts where the first ends.\<close>

lemma nested_run:
  "reconcile nested 0 12 =
     Inr [\<lparr>video_keywords = Some ''a'', start_time = 0, end_time = 10\<rparr>,
          \<lparr>video_keywords = Some ''c'', start_time = 10, end_time = 12\<rparr>]"
  by (simp add: reconcile_def nested_def clamp_ends_def)

subsection \<open>Coverage\<close>




subsection \<open>A second run\<close>




end
